theory Spec2Isabelle
  imports Complex_Main
begin

section \<open>The plunger of a pinball table (src/lib/vpt/plunger/plunger.ts)\<close>

text \<open>
  The class \<open>Plunger\<close> is embedded method by method. JavaScript numbers are modelled as
  \<open>real\<close> (frame indices as \<open>int\<close>), an optional field that is still \<open>undefined\<close> as
  \<open>None\<close>, and the \<open>TypeError\<close> that JavaScript raises when a property of \<open>undefined\<close>
  is read as the left summand of a result. The TypeScript postfix \<open>!\<close> is erased by the
  compiler: \<open>this.api!\<close> evaluates to \<open>this.api\<close>, whatever it holds.
\<close>

subsection \<open>Values handed in by the collaborators\<close>

datatype error = TypeError

datatype Vertex3D = Vertex3D real real real

record ('m, 't) Table =
  getMaterial :: "string \<Rightarrow> 'm option"
  getTexture :: "string \<Rightarrow> 't option"
  getSurfaceHeight :: "string \<Rightarrow> real \<Rightarrow> real \<Rightarrow> real"

text \<open>The interface \<open>PlungerConfig\<close> at the end of plunger.ts.\<close>

record PlungerConfig =
  cfg_x :: real
  cfg_y :: real
  cfg_x2 :: real
  cfg_zHeight :: real
  cfg_frameTop :: real
  cfg_frameBottom :: real
  cfg_cFrames :: int

text \<open>
  \<open>PlungerData\<close>: the fields that plunger.ts reads (\<open>getName()\<close>, \<open>szMaterial\<close>,
  \<open>szImage\<close>, \<open>szSurface\<close>, \<open>isVisible\<close>, \<open>autoPlunger\<close>, \<open>speedPull\<close>), and the part of
  the spec's Configuration that the session objects are built from: the geometry and
  travel bounds, and the parameters of the spring model, which the spec leaves tunable.
\<close>

record PlungerData =
  data_name :: string
  szMaterial :: string
  szImage :: string
  szSurface :: string
  data_isVisible :: bool
  autoPlunger :: bool
  speedPull :: real
  data_config :: PlungerConfig
  data_restPos :: real
  data_springStrength :: real
  data_friction :: real
  data_launchSpeed :: real
  data_restTolerance :: real

definition PlungerData_getName :: "PlungerData \<Rightarrow> string" where
  "PlungerData_getName d = data_name d"

subsection \<open>The mesh generator, a parameter\<close>

text \<open>
  \<open>PlungerMeshGenerator\<close> is not part of plunger.ts. What \<open>generateMeshes(frame, table)\<close>
  returns is left open: the generator is a record of functions, and every statement below
  holds for each generator. A part that the generator does not produce is \<open>None\<close>.
\<close>

record 'g PlungerMesh =
  pm_rod :: "'g option"
  pm_spring :: "'g option"
  pm_flat :: "'g option"

record ('g, 'm, 't) PlungerMeshGenerator =
  generateMeshes :: "int \<Rightarrow> ('m, 't) Table \<Rightarrow> 'g PlungerMesh"
  cFrames :: int

subsection \<open>Dynamic State: objects in a store\<close>

text \<open>
  The state object is shared by reference between the plunger, the hit object and the
  renderer, so it lives in a store and the plunger holds its address.
\<close>

record PlungerState =
  st_name :: string
  st_frame :: int

record StateStore =
  store_obj :: "nat \<Rightarrow> PlungerState"
  store_next :: nat

text \<open>
  Modelled from the spec: \<open>PlungerState.claim(name, frame)\<close> is not under src. Section 3:
  the Dynamic State is created with the frame it is given; the new object is a fresh one
  of the store.
\<close>

definition PlungerState_claim :: "string \<Rightarrow> int \<Rightarrow> StateStore \<Rightarrow> nat \<times> StateStore" where
  "PlungerState_claim nm fr s =
     (store_next s,
      s\<lparr>store_obj := (store_obj s)(store_next s := \<lparr>st_name = nm, st_frame = fr\<rparr>),
        store_next := Suc (store_next s)\<rparr>)"

subsection \<open>The Mover\<close>

text \<open>
  Modelled from the spec: the class \<open>PlungerMover\<close> is not under src; plunger.ts only
  calls its \<open>pullBack\<close> and \<open>fire\<close> and reads its fields \<open>x\<close>, \<open>x2\<close> and \<open>pos\<close>.
  The model follows section 4.1. The spec names the fully retracted end the bottom of the
  stroke (BOS) and the fully forward end its top (EOS), so the retracted bound is
  \<open>frameBottom\<close> and the forward bound is \<open>frameTop\<close>. Which of the two is the larger
  number is left to the Configuration: a pull moves the rod towards \<open>frameBottom\<close> from
  wherever it is, a release sends it towards \<open>frameTop\<close>, and a step keeps it between the
  two. The limit notifications of section 4.1 are not part of the model.
\<close>

datatype MoverMode = Idle | Retracting | Fired

record PlungerMover =
  mv_x :: real
  mv_x2 :: real
  mv_pos :: real
  mv_velocity :: real
  mv_mode :: MoverMode
  mv_pullRate :: real
  mv_data :: PlungerData

abbreviation frameTop :: "PlungerMover \<Rightarrow> real" where
  "frameTop m \<equiv> cfg_frameTop (data_config (mv_data m))"

abbreviation frameBottom :: "PlungerMover \<Rightarrow> real" where
  "frameBottom m \<equiv> cfg_frameBottom (data_config (mv_data m))"

definition clampPos :: "real \<Rightarrow> real \<Rightarrow> real \<Rightarrow> real" where
  "clampPos lo hi v = max lo (min hi v)"

text \<open>
  Modelled from the spec: the Mover of a new session ("Idle", section 4.1) rests at the
  rest position of its Configuration, inside the travel bounds.
\<close>

definition PlungerMover_new :: "PlungerData \<Rightarrow> PlungerMover" where
  "PlungerMover_new d =
     \<lparr>mv_x = cfg_x (data_config d),
      mv_x2 = cfg_x2 (data_config d),
      mv_pos = clampPos (min (cfg_frameTop (data_config d)) (cfg_frameBottom (data_config d)))
                 (max (cfg_frameTop (data_config d)) (cfg_frameBottom (data_config d)))
                 (data_restPos d),
      mv_velocity = 0,
      mv_mode = Idle,
      mv_pullRate = 0,
      mv_data = d\<rparr>"

text \<open>
  Modelled from the spec: \<open>pullBack(speed)\<close> "begins retracting the rod toward the
  maximum-pull position at the given rate"; "no effect if already fully retracted".
\<close>

definition PlungerMover_pullBack :: "real \<Rightarrow> PlungerMover \<Rightarrow> PlungerMover" where
  "PlungerMover_pullBack speed m =
     (if mv_pos m = frameBottom m then m
      else m\<lparr>mv_mode := Retracting, mv_pullRate := speed, mv_velocity := 0\<rparr>)"

text \<open>
  Modelled from the spec: \<open>fire(strength?)\<close> "transitions the rod from its current (or,
  for auto-launch mode, from the maximum-retracted) position into a forward release.
  strength in [0,1] scales initial forward velocity when provided (manual release); when
  omitted, release always starts from full-travel (auto-launch semantics - constant
  force)". So the release starts from the retracted bound when the Configuration has the
  auto-launch flag or the strength is omitted, and from the current position otherwise;
  the initial velocity points from the retracted bound to the forward one, scaled by the
  strength, an omitted strength being the full one. A pending pull is cancelled.
\<close>

definition PlungerMover_fire :: "real option \<Rightarrow> PlungerMover \<Rightarrow> PlungerMover" where
  "PlungerMover_fire strength m =
     m\<lparr>mv_mode := Fired,
       mv_pullRate := 0,
       mv_pos := (if autoPlunger (mv_data m) \<or> strength = None then frameBottom m
                  else mv_pos m),
       mv_velocity :=
         sgn (frameTop m - frameBottom m)
           * ((case strength of None \<Rightarrow> 1 | Some s \<Rightarrow> s) * data_launchSpeed (mv_data m))\<rparr>"

text \<open>
  Modelled from the spec: \<open>step(dt)\<close>. "While retracting, position moves linearly toward
  the pull target at the pull rate. While firing, position integrates under spring force
  (proportional to displacement from rest) minus friction, until the rod returns to rest
  position and comes to rest (small velocity threshold), at which point it re-enters an
  idle state." Numeric policy: "spring force = -k (pos - restPos); clamp pos to travel
  bounds every step (hard stop, zero residual velocity component beyond the bound)".
\<close>

definition approach :: "real \<Rightarrow> real \<Rightarrow> real \<Rightarrow> real" where
  "approach target d v = (if v < target then min target (v + d) else max target (v - d))"

definition integrate :: "real \<Rightarrow> PlungerMover \<Rightarrow> PlungerMover" where
  "integrate dt m =
     (case mv_mode m of
        Idle \<Rightarrow> m
      | Retracting \<Rightarrow> m\<lparr>mv_pos := approach (frameBottom m) (mv_pullRate m * dt) (mv_pos m)\<rparr>
      | Fired \<Rightarrow>
          (let force = - data_springStrength (mv_data m) * (mv_pos m - data_restPos (mv_data m))
                       - data_friction (mv_data m) * mv_velocity m;
               v = mv_velocity m + force * dt
           in m\<lparr>mv_velocity := v, mv_pos := mv_pos m + v * dt\<rparr>))"

definition clampToTravel :: "PlungerMover \<Rightarrow> PlungerMover" where
  "clampToTravel m =
     (let lo = min (frameTop m) (frameBottom m);
          hi = max (frameTop m) (frameBottom m)
      in if mv_pos m < lo
         then m\<lparr>mv_pos := lo, mv_velocity := max 0 (mv_velocity m)\<rparr>
         else if hi < mv_pos m
         then m\<lparr>mv_pos := hi, mv_velocity := min 0 (mv_velocity m)\<rparr>
         else m)"

definition settle :: "PlungerMover \<Rightarrow> PlungerMover" where
  "settle m =
     (if mv_mode m = Fired
         \<and> \<bar>mv_pos m - data_restPos (mv_data m)\<bar> \<le> data_restTolerance (mv_data m)
         \<and> \<bar>mv_velocity m\<bar> \<le> data_restTolerance (mv_data m)
      then m\<lparr>mv_mode := Idle, mv_velocity := 0\<rparr>
      else m)"

definition PlungerMover_step :: "real \<Rightarrow> PlungerMover \<Rightarrow> PlungerMover" where
  "PlungerMover_step dt m = settle (clampToTravel (integrate dt m))"

text \<open>The commands a Mover receives, in any interleaving, and their effect in order.\<close>

datatype MoverCommand = PullBack real | Fire "real option" | Step real

fun runCommand :: "MoverCommand \<Rightarrow> PlungerMover \<Rightarrow> PlungerMover" where
  "runCommand (PullBack speed) m = PlungerMover_pullBack speed m"
| "runCommand (Fire strength) m = PlungerMover_fire strength m"
| "runCommand (Step dt) m = PlungerMover_step dt m"

fun runCommands :: "MoverCommand list \<Rightarrow> PlungerMover \<Rightarrow> PlungerMover" where
  "runCommands [] m = m"
| "runCommands (c # cs) m = runCommands cs (runCommand c m)"

subsection \<open>The session objects\<close>

text \<open>
  Modelled from the spec: \<open>EventProxy\<close>, \<open>PlungerHit\<close> and \<open>PlungerApi\<close> are not under
  src. Section 3: session setup produces the Mover, the Collision Surface and the Facade;
  the Collision Surface owns the Mover (\<open>getMoverObject()\<close>) and shares the Dynamic State
  with the plunger; the Facade "holds no independent physics state" (section 4.3). The
  proxy and the facade are kept as the arguments they are bound to.
\<close>

datatype EventProxy = EventProxy string

record PlungerHit =
  hit_mover :: PlungerMover
  hit_state :: nat
  hit_events :: EventProxy
  hit_cFrames :: int

datatype PlungerApi = PlungerApi PlungerData EventProxy

record 'ph Player =
  getPhysics :: "'ph"

definition PlungerHit_new ::
  "PlungerData \<Rightarrow> nat \<Rightarrow> EventProxy \<Rightarrow> int \<Rightarrow> 'ph \<Rightarrow> ('m, 't) Table \<Rightarrow> PlungerHit" where
  "PlungerHit_new d st ev frames physics table =
     \<lparr>hit_mover = PlungerMover_new d, hit_state = st, hit_events = ev, hit_cFrames = frames\<rparr>"

definition getMoverObject :: "PlungerHit \<Rightarrow> PlungerMover" where
  "getMoverObject h = hit_mover h"

subsection \<open>The class Plunger\<close>

record ('g, 'm, 't) Plunger =
  p_data :: PlungerData
  p_meshGenerator :: "('g, 'm, 't) PlungerMeshGenerator"
  p_state :: nat
  p_api :: "PlungerApi option"
  p_hit :: "PlungerHit option"
  p_events :: "EventProxy option"

text \<open>
  The constructor. \<open>new PlungerMeshGenerator(data)\<close> is the parameter \<open>newGenerator\<close>;
  the three optional fields start out \<open>undefined\<close>.
\<close>

definition Plunger_new ::
  "(PlungerData \<Rightarrow> ('g, 'm, 't) PlungerMeshGenerator) \<Rightarrow> string \<Rightarrow> PlungerData \<Rightarrow> StateStore
     \<Rightarrow> ('g, 'm, 't) Plunger \<times> StateStore" where
  "Plunger_new newGenerator itemName d store =
     (let (st, store') = PlungerState_claim (PlungerData_getName d) 0 store
      in (\<lparr>p_data = d, p_meshGenerator = newGenerator d, p_state = st,
           p_api = None, p_hit = None, p_events = None\<rparr>, store'))"

definition getName :: "('g, 'm, 't) Plunger \<Rightarrow> string" where
  "getName p = PlungerData_getName (p_data p)"

definition getData :: "('g, 'm, 't) Plunger \<Rightarrow> PlungerData" where
  "getData p = p_data p"

definition getState :: "('g, 'm, 't) Plunger \<Rightarrow> nat" where
  "getState p = p_state p"

record ('g, 'm, 't) RenderInfo =
  ri_mesh :: "'g"
  ri_material :: "'m option"
  ri_map :: "'t option"

definition getMeshes ::
  "('g, 'm, 't) Plunger \<Rightarrow> ('m, 't) Table \<Rightarrow> (string \<rightharpoonup> ('g, 'm, 't) RenderInfo)" where
  "getMeshes p table =
     (let plunger = generateMeshes (p_meshGenerator p) 0 table;
          meshes = Map.empty;
          material = getMaterial table (szMaterial (p_data p));
          texture = getTexture table (szImage (p_data p));
          meshes = (case pm_rod plunger of
                      Some rod \<Rightarrow> meshes(''rod'' \<mapsto>
                        \<lparr>ri_mesh = rod, ri_material = material, ri_map = texture\<rparr>)
                    | None \<Rightarrow> meshes);
          meshes = (case pm_spring plunger of
                      Some spring \<Rightarrow> meshes(''spring'' \<mapsto>
                        \<lparr>ri_mesh = spring, ri_material = material, ri_map = texture\<rparr>)
                    | None \<Rightarrow> meshes);
          meshes = (case pm_flat plunger of
                      Some flat \<Rightarrow> meshes(''flat'' \<mapsto>
                        \<lparr>ri_mesh = flat, ri_material = material, ri_map = texture\<rparr>)
                    | None \<Rightarrow> meshes)
      in meshes)"

definition isVisible :: "('g, 'm, 't) Plunger \<Rightarrow> ('m, 't) Table \<Rightarrow> bool" where
  "isVisible p table = data_isVisible (p_data p)"

definition isCollidable :: "('g, 'm, 't) Plunger \<Rightarrow> bool" where
  "isCollidable p = True"

definition setupPlayer ::
  "('g, 'm, 't) Plunger \<Rightarrow> 'ph Player \<Rightarrow> ('m, 't) Table \<Rightarrow> ('g, 'm, 't) Plunger" where
  "setupPlayer p player table =
     (let events = EventProxy (getName p);
          hit = PlungerHit_new (p_data p) (p_state p) events (cFrames (p_meshGenerator p))
                  (getPhysics player) table;
          api = PlungerApi (p_data p) events
      in p\<lparr>p_events := Some events, p_hit := Some hit, p_api := Some api\<rparr>)"

text \<open>
  The four getters. Only \<open>getMover\<close> reads a property of the optional field, so only it
  can raise; the other three hand the field over as it is.
\<close>

definition getApi :: "('g, 'm, 't) Plunger \<Rightarrow> error + PlungerApi option" where
  "getApi p = Inr (p_api p)"

definition getMover :: "('g, 'm, 't) Plunger \<Rightarrow> error + PlungerMover" where
  "getMover p = (case p_hit p of None \<Rightarrow> Inl TypeError | Some h \<Rightarrow> Inr (getMoverObject h))"

definition getHitShapes :: "('g, 'm, 't) Plunger \<Rightarrow> error + PlungerHit option list" where
  "getHitShapes p = Inr [p_hit p]"

definition getEventProxy :: "('g, 'm, 't) Plunger \<Rightarrow> error + EventProxy option" where
  "getEventProxy p = Inr (p_events p)"

text \<open>
  \<open>pullBack\<close> and \<open>fire\<close> mutate the Mover that \<open>getMover()\<close> returns, which is the one
  owned by the hit object: the updated Mover is written back there.
\<close>

definition setMover :: "('g, 'm, 't) Plunger \<Rightarrow> PlungerMover \<Rightarrow> ('g, 'm, 't) Plunger" where
  "setMover p m = p\<lparr>p_hit := map_option (\<lambda>h. h\<lparr>hit_mover := m\<rparr>) (p_hit p)\<rparr>"

definition pullBack :: "('g, 'm, 't) Plunger \<Rightarrow> error + ('g, 'm, 't) Plunger" where
  "pullBack p =
     (case getMover p of
        Inl e \<Rightarrow> Inl e
      | Inr m \<Rightarrow> Inr (setMover p (PlungerMover_pullBack (speedPull (p_data p)) m)))"

text \<open>
  \<open>fire\<close>, first with the \<open>fire\<close> method of the Mover as a parameter, so that which of
  the two calls is made can be stated for every Mover, then with the Mover above.
\<close>

definition fireWith ::
  "(real option \<Rightarrow> PlungerMover \<Rightarrow> PlungerMover) \<Rightarrow> ('g, 'm, 't) Plunger
     \<Rightarrow> error + ('g, 'm, 't) Plunger" where
  "fireWith moverFire p =
     (if autoPlunger (p_data p)
      then (case getMover p of
              Inl e \<Rightarrow> Inl e
            | Inr m \<Rightarrow> Inr (setMover p (moverFire (Some 1.0) m)))
      else (case getMover p of
              Inl e \<Rightarrow> Inl e
            | Inr m \<Rightarrow> Inr (setMover p (moverFire None m))))"

definition fire :: "('g, 'm, 't) Plunger \<Rightarrow> error + ('g, 'm, 't) Plunger" where
  "fire p = fireWith PlungerMover_fire p"

text \<open>
  \<open>applyState\<close>. The render interface is a parameter: \<open>findInGroup\<close> is any lookup of a
  named node in a group, and a scene maps each node to the mesh it shows. Applying a mesh
  to a node replaces what that node shows. \<open>mesh.rod!\<close> is the generated part as it is,
  also when the generator produced none.
\<close>

record 'n RenderApi =
  findInGroup :: "'n \<Rightarrow> string \<Rightarrow> 'n option"

definition applyMeshToNode :: "'g option \<Rightarrow> 'n \<Rightarrow> ('n \<Rightarrow> 'g option) \<Rightarrow> ('n \<Rightarrow> 'g option)" where
  "applyMeshToNode mesh node scene = scene(node := mesh)"

definition applyState ::
  "('g, 'm, 't) Plunger \<Rightarrow> 'n \<Rightarrow> 'n RenderApi \<Rightarrow> ('m, 't) Table \<Rightarrow> 'ph Player \<Rightarrow> StateStore
     \<Rightarrow> ('n \<Rightarrow> 'g option) \<Rightarrow> ('n \<Rightarrow> 'g option)" where
  "applyState p obj renderApi table player store scene =
     (let mesh = generateMeshes (p_meshGenerator p) (st_frame (store_obj store (p_state p))) table;
          scene = (case findInGroup renderApi obj ''rod'' of
                     Some rodObj \<Rightarrow> applyMeshToNode (pm_rod mesh) rodObj scene
                   | None \<Rightarrow> scene);
          scene = (case findInGroup renderApi obj ''spring'' of
                     Some springObj \<Rightarrow> applyMeshToNode (pm_spring mesh) springObj scene
                   | None \<Rightarrow> scene)
      in scene)"

definition getBallCreationPosition ::
  "('g, 'm, 't) Plunger \<Rightarrow> ('m, 't) Table \<Rightarrow> error + Vertex3D" where
  "getBallCreationPosition p table =
     (case getMover p of
        Inl e \<Rightarrow> Inl e
      | Inr m \<Rightarrow>
          (let x = (mv_x m + mv_x2 m) * 0.5;
               y = mv_pos m - (25.0 + 0.01);
               height = getSurfaceHeight table (szSurface (p_data p)) x y
           in Inr (Vertex3D x y height)))"

definition getBallCreationVelocity :: "('g, 'm, 't) Plunger \<Rightarrow> ('m, 't) Table \<Rightarrow> Vertex3D" where
  "getBallCreationVelocity p table = Vertex3D 0 0 0"

definition getEventNames :: "('g, 'm, 't) Plunger \<Rightarrow> string list" where
  "getEventNames p = [''Init'', ''Timer'', ''LimitEOS'', ''LimitBOS'']"

subsection \<open>The life of a plunger\<close>

text \<open>
  What happens to a plunger after its construction: session setup, the two commands, and
  the simulation tick, in which the Mover of the hit object advances and writes the frame
  it selects into the Dynamic State that the hit object shares. How the Mover selects the
  frame is not specified, so the tick takes the frame as a parameter. A command that
  raises leaves the plunger as it was.
\<close>

datatype ('m, 't, 'ph) PlungerOp =
    OpSetupPlayer "'ph Player" "('m, 't) Table"
  | OpPullBack
  | OpFire
  | OpTick real int

definition writeFrame :: "nat \<Rightarrow> int \<Rightarrow> StateStore \<Rightarrow> StateStore" where
  "writeFrame st fr store =
     store\<lparr>store_obj := (store_obj store)(st := (store_obj store st)\<lparr>st_frame := fr\<rparr>)\<rparr>"

fun runOp ::
  "('m, 't, 'ph) PlungerOp \<Rightarrow> ('g, 'm, 't) Plunger \<times> StateStore
     \<Rightarrow> ('g, 'm, 't) Plunger \<times> StateStore" where
  "runOp (OpSetupPlayer player table) (p, store) = (setupPlayer p player table, store)"
| "runOp OpPullBack (p, store) =
     (case pullBack p of Inl e \<Rightarrow> (p, store) | Inr p' \<Rightarrow> (p', store))"
| "runOp OpFire (p, store) =
     (case fire p of Inl e \<Rightarrow> (p, store) | Inr p' \<Rightarrow> (p', store))"
| "runOp (OpTick dt fr) (p, store) =
     (case p_hit p of
        None \<Rightarrow> (p, store)
      | Some h \<Rightarrow> (setMover p (PlungerMover_step dt (getMoverObject h)),
                   writeFrame (hit_state h) fr store))"

fun runOps ::
  "('m, 't, 'ph) PlungerOp list \<Rightarrow> ('g, 'm, 't) Plunger \<times> StateStore
     \<Rightarrow> ('g, 'm, 't) Plunger \<times> StateStore" where
  "runOps [] w = w"
| "runOps (c # cs) w = runOps cs (runOp c w)"

subsection \<open>Sample inputs\<close>

text \<open>
  A table item with a stroke from 0 to 10, a rod tip from 0 to 10 and the rest position
  at 5, with and without the auto-launch flag; a table; a generator whose rod and flat
  meshes are numbered by the frame they are generated for; an empty store, and the
  plunger and the store that the constructor makes of them; a render group 0 with a rod
  node 1 and a flat node 3, and no spring node.
\<close>

definition sampleData :: "bool \<Rightarrow> PlungerData" where
  "sampleData auto =
     \<lparr>data_name = ''Plunger1'', szMaterial = ''Metal'', szImage = ''Rod'',
      szSurface = ''Playfield'', data_isVisible = False, autoPlunger = auto, speedPull = 2,
      data_config = \<lparr>cfg_x = 0, cfg_y = 10, cfg_x2 = 10, cfg_zHeight = 0, cfg_frameTop = 0,
                      cfg_frameBottom = 10, cfg_cFrames = 25\<rparr>,
      data_restPos = 5, data_springStrength = 4, data_friction = 1, data_launchSpeed = 100,
      data_restTolerance = 1 / 100\<rparr>"

definition sampleTable :: "(string, string) Table" where
  "sampleTable =
     \<lparr>getMaterial = (\<lambda>n. if n = ''Metal'' then Some ''metal'' else None),
      getTexture = (\<lambda>n. None),
      getSurfaceHeight = (\<lambda>n x y. 7)\<rparr>"

definition sampleGenerator :: "PlungerData \<Rightarrow> (int, string, string) PlungerMeshGenerator" where
  "sampleGenerator d =
     \<lparr>generateMeshes = (\<lambda>fr table. \<lparr>pm_rod = Some fr, pm_spring = None, pm_flat = Some (fr + 100)\<rparr>),
      cFrames = cfg_cFrames (data_config d)\<rparr>"

definition emptyStore :: StateStore where
  "emptyStore = \<lparr>store_obj = (\<lambda>r. \<lparr>st_name = [], st_frame = - 1\<rparr>), store_next = 0\<rparr>"

definition samplePlayer :: "unit Player" where
  "samplePlayer = \<lparr>getPhysics = ()\<rparr>"

definition sampleApi :: "nat RenderApi" where
  "sampleApi =
     \<lparr>findInGroup = (\<lambda>g nm. if nm = ''rod'' then Some 1 else if nm = ''flat'' then Some 3 else None)\<rparr>"

definition samplePlunger :: "bool \<Rightarrow> (int, string, string) Plunger" where
  "samplePlunger auto = fst (Plunger_new sampleGenerator ''Plunger1'' (sampleData auto) emptyStore)"

definition sampleStore :: "bool \<Rightarrow> StateStore" where
  "sampleStore auto = snd (Plunger_new sampleGenerator ''Plunger1'' (sampleData auto) emptyStore)"




section \<open>Properties\<close>

subsection \<open>Event names, visibility and collidability\<close>

text \<open>
  C5. \<open>getEventNames()\<close> returns the four names Init, Timer, LimitEOS and LimitBOS, each
  once and no other, for every plunger.
\<close>

theorem getEventNames_exact:
  "getEventNames p = [''Init'', ''Timer'', ''LimitEOS'', ''LimitBOS'']
   \<and> set (getEventNames p) = {''Init'', ''Timer'', ''LimitEOS'', ''LimitBOS''}
   \<and> length (getEventNames p) = 4 \<and> distinct (getEventNames p)"
  by (simp add: getEventNames_def)

text \<open>
  C8. \<open>isCollidable()\<close> is true of every plunger, whatever its visibility flag is set to;
  the flag is what \<open>isVisible()\<close> returns.
\<close>

theorem isCollidable_always:
  "isCollidable p
   \<and> isCollidable (p\<lparr>p_data := (p_data p)\<lparr>data_isVisible := v\<rparr>\<rparr>)
   \<and> isVisible (p\<lparr>p_data := (p_data p)\<lparr>data_isVisible := v\<rparr>\<rparr>) table = v
   \<and> isVisible p table = data_isVisible (p_data p)"
  by (simp add: isCollidable_def isVisible_def)

subsection \<open>The meshes of getMeshes\<close>

lemma getMeshes_rod:
  "getMeshes p table ''rod'' =
     map_option (\<lambda>g. \<lparr>ri_mesh = g, ri_material = getMaterial table (szMaterial (p_data p)),
                       ri_map = getTexture table (szImage (p_data p))\<rparr>)
       (pm_rod (generateMeshes (p_meshGenerator p) 0 table))"
  by (simp add: getMeshes_def Let_def split: option.splits)

lemma getMeshes_spring:
  "getMeshes p table ''spring'' =
     map_option (\<lambda>g. \<lparr>ri_mesh = g, ri_material = getMaterial table (szMaterial (p_data p)),
                       ri_map = getTexture table (szImage (p_data p))\<rparr>)
       (pm_spring (generateMeshes (p_meshGenerator p) 0 table))"
  by (simp add: getMeshes_def Let_def split: option.splits)

lemma getMeshes_flat:
  "getMeshes p table ''flat'' =
     map_option (\<lambda>g. \<lparr>ri_mesh = g, ri_material = getMaterial table (szMaterial (p_data p)),
                       ri_map = getTexture table (szImage (p_data p))\<rparr>)
       (pm_flat (generateMeshes (p_meshGenerator p) 0 table))"
  by (simp add: getMeshes_def Let_def split: option.splits)

lemma getMeshes_dom:
  "dom (getMeshes p table) \<subseteq> {''rod'', ''spring'', ''flat''}"
  by (auto simp add: getMeshes_def Let_def split: option.splits if_splits)

text \<open>
  C7. For every table, the record that \<open>getMeshes\<close> returns has no entry but rod, spring
  and flat; each of the three is there exactly when the generator produced that part, and
  then pairs the generated mesh with the material that the table returns for
  \<open>szMaterial\<close> and the texture that it returns for \<open>szImage\<close>.
\<close>

theorem getMeshes_parts:
  "dom (getMeshes p table) \<subseteq> {''rod'', ''spring'', ''flat''}
   \<and> getMeshes p table ''rod'' =
       map_option (\<lambda>g. \<lparr>ri_mesh = g, ri_material = getMaterial table (szMaterial (p_data p)),
                         ri_map = getTexture table (szImage (p_data p))\<rparr>)
         (pm_rod (generateMeshes (p_meshGenerator p) 0 table))
   \<and> getMeshes p table ''spring'' =
       map_option (\<lambda>g. \<lparr>ri_mesh = g, ri_material = getMaterial table (szMaterial (p_data p)),
                         ri_map = getTexture table (szImage (p_data p))\<rparr>)
         (pm_spring (generateMeshes (p_meshGenerator p) 0 table))
   \<and> getMeshes p table ''flat'' =
       map_option (\<lambda>g. \<lparr>ri_mesh = g, ri_material = getMaterial table (szMaterial (p_data p)),
                         ri_map = getTexture table (szImage (p_data p))\<rparr>)
         (pm_flat (generateMeshes (p_meshGenerator p) 0 table))"
  using getMeshes_dom [of p table] getMeshes_rod [of p table] getMeshes_spring [of p table]
    getMeshes_flat [of p table]
  by simp

text \<open>
  C10. \<open>getMeshes\<close> takes its three meshes from the generator at frame 0 and does not read
  the Dynamic State; \<open>applyState\<close> takes them at the frame that the Dynamic State holds:
  after frame \<open>fr\<close> has been written there, it shows the meshes generated for \<open>fr\<close>.
\<close>

theorem getMeshes_frame_zero:
  "map_option ri_mesh (getMeshes p table ''rod'') =
     pm_rod (generateMeshes (p_meshGenerator p) 0 table)
   \<and> map_option ri_mesh (getMeshes p table ''spring'') =
       pm_spring (generateMeshes (p_meshGenerator p) 0 table)
   \<and> map_option ri_mesh (getMeshes p table ''flat'') =
       pm_flat (generateMeshes (p_meshGenerator p) 0 table)
   \<and> applyState p obj api table player (writeFrame (p_state p) fr store) scene =
       (\<lambda>n. if findInGroup api obj ''spring'' = Some n
             then pm_spring (generateMeshes (p_meshGenerator p) fr table)
             else if findInGroup api obj ''rod'' = Some n
             then pm_rod (generateMeshes (p_meshGenerator p) fr table)
             else scene n)"
proof -
  have parts:
    "map_option ri_mesh (getMeshes p table ''rod'') =
       pm_rod (generateMeshes (p_meshGenerator p) 0 table)"
    "map_option ri_mesh (getMeshes p table ''spring'') =
       pm_spring (generateMeshes (p_meshGenerator p) 0 table)"
    "map_option ri_mesh (getMeshes p table ''flat'') =
       pm_flat (generateMeshes (p_meshGenerator p) 0 table)"
    by (simp_all add: getMeshes_rod getMeshes_spring getMeshes_flat option.map_comp comp_def
        option.map_ident)
  have "st_frame (store_obj (writeFrame (p_state p) fr store) (p_state p)) = fr"
    by (simp add: writeFrame_def)
  then have "applyState p obj api table player (writeFrame (p_state p) fr store) scene =
       (\<lambda>n. if findInGroup api obj ''spring'' = Some n
             then pm_spring (generateMeshes (p_meshGenerator p) fr table)
             else if findInGroup api obj ''rod'' = Some n
             then pm_rod (generateMeshes (p_meshGenerator p) fr table)
             else scene n)"
    by (auto simp add: applyState_def applyMeshToNode_def Let_def fun_eq_iff
        split: option.splits)
  with parts show ?thesis by simp
qed

lemma samplePlunger_fields:
  "p_meshGenerator (samplePlunger a) = sampleGenerator (sampleData a)"
  "p_state (samplePlunger a) = 0"
  "p_data (samplePlunger a) = sampleData a"
  "p_hit (samplePlunger a) = None"
  "p_api (samplePlunger a) = None"
  "p_events (samplePlunger a) = None"
  by (simp_all add: samplePlunger_def Plunger_new_def PlungerState_claim_def Let_def
      emptyStore_def)

theorem getMeshes_frame_zero_witness:
  "map_option ri_mesh (getMeshes (samplePlunger False) sampleTable ''rod'') = Some 0
   \<and> map_option ri_mesh (getMeshes (samplePlunger False) sampleTable ''flat'') = Some 100
   \<and> applyState (samplePlunger False) 0 sampleApi sampleTable samplePlayer
        (writeFrame (p_state (samplePlunger False)) 4 (sampleStore False)) (\<lambda>n. None) 1 = Some 4"
  using getMeshes_frame_zero [of "samplePlunger False" sampleTable 0 sampleApi samplePlayer 4
      "sampleStore False" "\<lambda>n. None"]
  by (simp add: samplePlunger_fields sampleGenerator_def sampleApi_def)

subsection \<open>The nodes that applyState touches\<close>

text \<open>
  C9. \<open>applyState\<close> changes the scene at the node found under the name rod and at the
  node found under the name spring, each when there is one, and nowhere else: every other
  node shows what it showed before. A node found under the name flat that is neither of
  the two keeps its mesh, also when the generator produces a flat mesh.
\<close>

theorem applyState_nodes:
  "applyState p obj api table player store scene =
     (\<lambda>n. if findInGroup api obj ''spring'' = Some n
           then pm_spring (generateMeshes (p_meshGenerator p)
                  (st_frame (store_obj store (p_state p))) table)
           else if findInGroup api obj ''rod'' = Some n
           then pm_rod (generateMeshes (p_meshGenerator p)
                  (st_frame (store_obj store (p_state p))) table)
           else scene n)
   \<and> (findInGroup api obj ''flat'' = Some f \<and> findInGroup api obj ''rod'' \<noteq> Some f
        \<and> findInGroup api obj ''spring'' \<noteq> Some f
      \<longrightarrow> applyState p obj api table player store scene f = scene f)"
  by (auto simp add: applyState_def applyMeshToNode_def Let_def fun_eq_iff split: option.splits)

theorem applyState_nodes_witness:
  "(findInGroup sampleApi 0 ''flat'' = Some 3 \<and> findInGroup sampleApi 0 ''rod'' \<noteq> Some 3
      \<and> findInGroup sampleApi 0 ''spring'' \<noteq> Some 3)
   \<and> pm_flat (generateMeshes (p_meshGenerator (samplePlunger False))
        (st_frame (store_obj (writeFrame 0 4 (sampleStore False)) (p_state (samplePlunger False))))
        sampleTable) = Some 104
   \<and> applyState (samplePlunger False) 0 sampleApi sampleTable samplePlayer
        (writeFrame 0 4 (sampleStore False)) (\<lambda>n. Some (- 1)) 3 = Some (- 1)
   \<and> applyState (samplePlunger False) 0 sampleApi sampleTable samplePlayer
        (writeFrame 0 4 (sampleStore False)) (\<lambda>n. Some (- 1)) 1 = Some 4
   \<and> applyState (samplePlunger False) 0 sampleApi sampleTable samplePlayer
        (writeFrame 0 4 (sampleStore False)) (\<lambda>n. Some (- 1)) 2 = Some (- 1)"
proof -
  have f: "findInGroup sampleApi 0 ''flat'' = Some 3 \<and> findInGroup sampleApi 0 ''rod'' \<noteq> Some 3
      \<and> findInGroup sampleApi 0 ''spring'' \<noteq> Some 3"
    by (simp add: sampleApi_def)
  note g = samplePlunger_fields(1) [of False] and st = samplePlunger_fields(2) [of False]
  have fr: "st_frame (store_obj (writeFrame 0 4 (sampleStore False)) 0) = 4"
    by (simp add: writeFrame_def)
  note t = applyState_nodes [of "samplePlunger False" 0 sampleApi sampleTable samplePlayer
        "writeFrame 0 4 (sampleStore False)" "\<lambda>n. Some (- 1)" 3]
  from t f have a: "applyState (samplePlunger False) 0 sampleApi sampleTable samplePlayer
        (writeFrame 0 4 (sampleStore False)) (\<lambda>n. Some (- 1)) 3 = Some (- 1)"
    by blast
  from t have b: "applyState (samplePlunger False) 0 sampleApi sampleTable samplePlayer
        (writeFrame 0 4 (sampleStore False)) (\<lambda>n. Some (- 1)) 1 = Some 4"
    by (simp add: g st fr sampleApi_def sampleGenerator_def)
  from t have c: "applyState (samplePlunger False) 0 sampleApi sampleTable samplePlayer
        (writeFrame 0 4 (sampleStore False)) (\<lambda>n. Some (- 1)) 2 = Some (- 1)"
    by (simp add: g st fr sampleApi_def sampleGenerator_def)
  have d: "pm_flat (generateMeshes (p_meshGenerator (samplePlunger False))
        (st_frame (store_obj (writeFrame 0 4 (sampleStore False)) (p_state (samplePlunger False))))
        sampleTable) = Some 104"
    by (simp add: g st fr sampleGenerator_def)
  from f d a b c show ?thesis by blast
qed

subsection \<open>The Dynamic State of a plunger\<close>

lemma setMover_state: "p_state (setMover p m) = p_state p"
  by (simp add: setMover_def)

lemma runOp_state: "p_state (fst (runOp c w)) = p_state (fst w)"
proof (cases w)
  case (Pair p store)
  then show ?thesis
    by (cases c)
      (simp_all add: setupPlayer_def Let_def pullBack_def fire_def fireWith_def getMover_def setMover_state
        split: sum.splits option.splits)
qed

lemma runOps_state: "p_state (fst (runOps cs w)) = p_state (fst w)"
  by (induction cs arbitrary: w) (simp_all add: runOp_state)

lemma runOp_next: "store_next (snd (runOp c w)) = store_next (snd w)"
proof (cases w)
  case (Pair p store)
  then show ?thesis
    by (cases c) (simp_all add: writeFrame_def split: sum.splits option.splits)
qed

lemma runOps_next: "store_next (snd (runOps cs w)) = store_next (snd w)"
  by (induction cs arbitrary: w) (simp_all add: runOp_next)

text \<open>
  C6. The constructor creates one state object, a new one of the store, with the name of
  the item and frame 0, and leaves every other object of the store as it was; whatever
  happens to the plunger afterwards (session setup, pulls, releases, ticks that write the
  frame), \<open>getState()\<close> returns that same object and no further state object is created.
\<close>

theorem state_created_once:
  assumes "Plunger_new gen itemName d store = (p, store')"
  shows "getState p = store_next store
         \<and> store_next store' = Suc (store_next store)
         \<and> store_obj store' (getState p) = \<lparr>st_name = data_name d, st_frame = 0\<rparr>
         \<and> (\<forall>r. r \<noteq> getState p \<longrightarrow> store_obj store' r = store_obj store r)
         \<and> getState (fst (runOps ops (p, store'))) = getState p
         \<and> store_next (snd (runOps ops (p, store'))) = store_next store'"
proof -
  from assms have p: "p_state p = store_next store"
    and s: "store' = store\<lparr>store_obj := (store_obj store)(store_next store :=
              \<lparr>st_name = data_name d, st_frame = 0\<rparr>), store_next := Suc (store_next store)\<rparr>"
    by (auto simp add: Plunger_new_def PlungerState_claim_def Let_def PlungerData_getName_def)
  have "getState (fst (runOps ops (p, store'))) = getState p"
    by (simp add: getState_def runOps_state)
  moreover have "store_next (snd (runOps ops (p, store'))) = store_next store'"
    by (simp add: runOps_next)
  ultimately show ?thesis using p s by (simp add: getState_def)
qed

theorem state_created_once_witness:
  "Plunger_new sampleGenerator ''Plunger1'' (sampleData True) emptyStore =
     (samplePlunger True, sampleStore True)
   \<and> getState (samplePlunger True) = 0
   \<and> st_frame (store_obj (sampleStore True) (getState (samplePlunger True))) = 0
   \<and> getState (fst (runOps [OpSetupPlayer samplePlayer sampleTable, OpPullBack, OpTick 1 7,
        OpFire, OpTick 1 3] (samplePlunger True, sampleStore True))) = 0"
proof -
  have e: "Plunger_new sampleGenerator ''Plunger1'' (sampleData True) emptyStore =
     (samplePlunger True, sampleStore True)"
    by (simp add: samplePlunger_def sampleStore_def)
  have n: "store_next emptyStore = 0" by (simp add: emptyStore_def)
  from state_created_once [OF e, of "[OpSetupPlayer samplePlayer sampleTable, OpPullBack,
        OpTick 1 7, OpFire, OpTick 1 3]"] e n show ?thesis by auto
qed

subsection \<open>Before and after session setup\<close>

lemma Plunger_new_fields:
  "p_hit (fst (Plunger_new gen itemName d store)) = None"
  "p_api (fst (Plunger_new gen itemName d store)) = None"
  "p_events (fst (Plunger_new gen itemName d store)) = None"
  "p_data (fst (Plunger_new gen itemName d store)) = d"
  "p_state (fst (Plunger_new gen itemName d store)) = store_next store"
  "p_meshGenerator (fst (Plunger_new gen itemName d store)) = gen d"
  by (simp_all add: Plunger_new_def PlungerState_claim_def Let_def)

lemma no_hit_raises:
  "p_hit p = None \<Longrightarrow> getMover p = Inl TypeError"
  "p_hit p = None \<Longrightarrow> pullBack p = Inl TypeError"
  "p_hit p = None \<Longrightarrow> fire p = Inl TypeError"
  by (simp_all add: getMover_def pullBack_def fire_def fireWith_def)

lemma sample_hit:
  "p_hit (setupPlayer (samplePlunger a) samplePlayer sampleTable) =
     Some (PlungerHit_new (sampleData a) 0 (EventProxy ''Plunger1'') 25 () sampleTable)"
  by (simp add: setupPlayer_def samplePlunger_fields Let_def getName_def
      PlungerData_getName_def sampleData_def sampleGenerator_def samplePlayer_def)

text \<open>
  C4, as stated, fails: on a plunger fresh from its constructor, \<open>getApi()\<close> and
  \<open>getEventProxy()\<close> return \<open>undefined\<close> and \<open>getHitShapes()\<close> returns a list holding
  \<open>undefined\<close>; none of the three raises.
\<close>

theorem getters_before_setup_counterexample:
  "getApi (samplePlunger False) = Inr None
   \<and> getHitShapes (samplePlunger False) = Inr [None]
   \<and> getEventProxy (samplePlunger False) = Inr None"
  by (simp add: getApi_def getHitShapes_def getEventProxy_def samplePlunger_fields)

text \<open>
  C4, amended. On a plunger fresh from its constructor, \<open>getMover()\<close>, \<open>pullBack()\<close> and
  \<open>fire()\<close> raise a TypeError, while \<open>getApi()\<close>, \<open>getHitShapes()\<close> and
  \<open>getEventProxy()\<close> return the unset field without raising. After \<open>setupPlayer\<close>, the
  six operations return or act on the event proxy, the hit object (and its Mover) and the
  facade that this setup created.
\<close>

theorem session_operations:
  "getMover (fst (Plunger_new gen itemName d store)) = Inl TypeError
   \<and> pullBack (fst (Plunger_new gen itemName d store)) = Inl TypeError
   \<and> fire (fst (Plunger_new gen itemName d store)) = Inl TypeError
   \<and> getApi (fst (Plunger_new gen itemName d store)) = Inr None
   \<and> getHitShapes (fst (Plunger_new gen itemName d store)) = Inr [None]
   \<and> getEventProxy (fst (Plunger_new gen itemName d store)) = Inr None
   \<and> getApi (setupPlayer p player table) =
       Inr (Some (PlungerApi (p_data p) (EventProxy (getName p))))
   \<and> getEventProxy (setupPlayer p player table) = Inr (Some (EventProxy (getName p)))
   \<and> getHitShapes (setupPlayer p player table) =
       Inr [Some (PlungerHit_new (p_data p) (p_state p) (EventProxy (getName p))
                   (cFrames (p_meshGenerator p)) (getPhysics player) table)]
   \<and> getMover (setupPlayer p player table) = Inr (PlungerMover_new (p_data p))
   \<and> pullBack (setupPlayer p player table) =
       Inr (setMover (setupPlayer p player table)
              (PlungerMover_pullBack (speedPull (p_data p)) (PlungerMover_new (p_data p))))
   \<and> fire (setupPlayer p player table) =
       Inr (setMover (setupPlayer p player table)
              (PlungerMover_fire (if autoPlunger (p_data p) then Some 1 else None)
                 (PlungerMover_new (p_data p))))"
  by (simp add: Plunger_new_fields no_hit_raises getApi_def getHitShapes_def getEventProxy_def
        getMover_def pullBack_def fire_def fireWith_def setupPlayer_def Let_def PlungerHit_new_def
        getMoverObject_def)

subsection \<open>Where a new ball is put\<close>

text \<open>
  C3. On a plunger whose session is set up, \<open>getBallCreationPosition\<close> returns, for every
  table, the midpoint \<open>(x + x2) * 0.5\<close> of the rod tip, the rod position less 25.01, and
  the height that the table's surface lookup gives there; \<open>getBallCreationVelocity\<close>
  returns the zero vector. For a rod tip from 0 to 10 the ball is put at x = 5 and
  y = pos - 25.01.
\<close>

theorem getBallCreationPosition_value:
  assumes "p_hit p = Some h"
  shows "getBallCreationPosition p table =
           Inr (Vertex3D ((mv_x (hit_mover h) + mv_x2 (hit_mover h)) * 0.5)
                  (mv_pos (hit_mover h) - 25.01)
                  (getSurfaceHeight table (szSurface (p_data p))
                     ((mv_x (hit_mover h) + mv_x2 (hit_mover h)) * 0.5)
                     (mv_pos (hit_mover h) - 25.01)))
         \<and> getBallCreationVelocity p table = Vertex3D 0 0 0
         \<and> (mv_x (hit_mover h) = 0 \<and> mv_x2 (hit_mover h) = 10 \<longrightarrow>
              getBallCreationPosition p table =
                Inr (Vertex3D 5 (mv_pos (hit_mover h) - 25.01)
                       (getSurfaceHeight table (szSurface (p_data p)) 5
                          (mv_pos (hit_mover h) - 25.01))))"
  using assms
  by (simp add: getBallCreationPosition_def getBallCreationVelocity_def getMover_def
      getMoverObject_def Let_def)

text \<open>The rod tip from 0 to 10, at position 5: the ball is put at x = 5, y = 5 - 25.01.\<close>

theorem getBallCreationPosition_value_witness:
  "p_hit (setupPlayer (samplePlunger False) samplePlayer sampleTable) =
     Some (PlungerHit_new (sampleData False) 0 (EventProxy ''Plunger1'') 25 () sampleTable)
   \<and> mv_x (PlungerMover_new (sampleData False)) = 0
   \<and> mv_x2 (PlungerMover_new (sampleData False)) = 10
   \<and> mv_pos (PlungerMover_new (sampleData False)) = 5
   \<and> getBallCreationPosition (setupPlayer (samplePlunger False) samplePlayer sampleTable) sampleTable
       = Inr (Vertex3D 5 (5 - 25.01) 7)
   \<and> getBallCreationVelocity (setupPlayer (samplePlunger False) samplePlayer sampleTable) sampleTable
       = Vertex3D 0 0 0"
proof -
  note h = sample_hit [of False]
  have m: "mv_x (PlungerMover_new (sampleData False)) = 0"
    "mv_x2 (PlungerMover_new (sampleData False)) = 10"
    "mv_pos (PlungerMover_new (sampleData False)) = 5"
    by (simp_all add: PlungerMover_new_def sampleData_def clampPos_def)
  have "getBallCreationPosition (setupPlayer (samplePlunger False) samplePlayer sampleTable)
          sampleTable = Inr (Vertex3D 5 (5 - 25.01) 7)
        \<and> getBallCreationVelocity (setupPlayer (samplePlunger False) samplePlayer sampleTable)
            sampleTable = Vertex3D 0 0 0"
    using getBallCreationPosition_value [OF h, of sampleTable]
    by (simp add: PlungerHit_new_def m sampleTable_def)
  with h m show ?thesis by blast
qed

subsection \<open>The rod stays within its travel\<close>

lemma pullBack_data: "mv_data (PlungerMover_pullBack speed m) = mv_data m"
  by (simp add: PlungerMover_pullBack_def)

lemma fire_data: "mv_data (PlungerMover_fire strength m) = mv_data m"
  by (simp add: PlungerMover_fire_def)

lemma integrate_data: "mv_data (integrate dt m) = mv_data m"
  by (simp add: integrate_def Let_def split: MoverMode.splits)

lemma clampToTravel_data: "mv_data (clampToTravel m) = mv_data m"
  by (simp add: clampToTravel_def Let_def)

lemma settle_data: "mv_data (settle m) = mv_data m"
  by (simp add: settle_def)

lemma settle_pos: "mv_pos (settle m) = mv_pos m"
  by (simp add: settle_def)

lemma step_data: "mv_data (PlungerMover_step dt m) = mv_data m"
  by (simp add: PlungerMover_step_def settle_data clampToTravel_data integrate_data)

lemma runCommand_data: "mv_data (runCommand c m) = mv_data m"
  by (cases c) (simp_all add: pullBack_data fire_data step_data)

lemma runCommands_data: "mv_data (runCommands cs m) = mv_data m"
  by (induction cs arbitrary: m) (simp_all add: runCommand_data)

lemma clampToTravel_bounds:
  assumes "frameTop m \<le> frameBottom m"
  shows "frameTop m \<le> mv_pos (clampToTravel m) \<and> mv_pos (clampToTravel m) \<le> frameBottom m"
  using assms by (simp add: clampToTravel_def Let_def)

lemma step_bounds:
  assumes "frameTop m \<le> frameBottom m"
  shows "frameTop m \<le> mv_pos (PlungerMover_step dt m)
         \<and> mv_pos (PlungerMover_step dt m) \<le> frameBottom m"
proof -
  have "frameTop (integrate dt m) \<le> frameBottom (integrate dt m)"
    using assms by (simp add: integrate_data)
  from clampToTravel_bounds [OF this] show ?thesis
    by (simp add: PlungerMover_step_def settle_pos integrate_data)
qed

text \<open>
  C2. Let the travel bounds be in order, \<open>frameTop \<le> frameBottom\<close>. Then after every
  step, whatever the tick length and whatever pulls, releases and steps came before it,
  with whatever speeds and strengths, the rod position lies within
  \<open>[frameTop, frameBottom]\<close>; the bounds themselves never change.
\<close>

theorem step_within_travel:
  assumes "frameTop m \<le> frameBottom m"
  shows "frameTop m \<le> mv_pos (PlungerMover_step dt (runCommands cs m))
         \<and> mv_pos (PlungerMover_step dt (runCommands cs m)) \<le> frameBottom m
         \<and> frameTop (PlungerMover_step dt (runCommands cs m)) = frameTop m
         \<and> frameBottom (PlungerMover_step dt (runCommands cs m)) = frameBottom m"
proof -
  have "frameTop (runCommands cs m) \<le> frameBottom (runCommands cs m)"
    using assms by (simp add: runCommands_data)
  from step_bounds [OF this, of dt] show ?thesis
    by (simp add: runCommands_data step_data)
qed

text \<open>
  A hard pull to the retracted bound and a release a thousand times the full strength:
  the integration alone would carry the rod to -10, the step leaves it at the bound 0.
\<close>

theorem step_within_travel_witness:
  "frameTop (PlungerMover_new (sampleData False)) \<le> frameBottom (PlungerMover_new (sampleData False))
   \<and> frameTop (PlungerMover_new (sampleData False)) = 0
   \<and> frameBottom (PlungerMover_new (sampleData False)) = 10
   \<and> mv_pos (integrate 1 (runCommands [PullBack 50000, Step 2, Fire (Some 1000)]
        (PlungerMover_new (sampleData False)))) = - 10
   \<and> mv_pos (PlungerMover_step 1 (runCommands [PullBack 50000, Step 2, Fire (Some 1000)]
        (PlungerMover_new (sampleData False)))) = 0"
proof -
  have b: "frameTop (PlungerMover_new (sampleData False))
             \<le> frameBottom (PlungerMover_new (sampleData False))"
    and t: "frameTop (PlungerMover_new (sampleData False)) = 0"
    and u: "frameBottom (PlungerMover_new (sampleData False)) = 10"
    by (simp_all add: PlungerMover_new_def sampleData_def)
  have r: "runCommands [PullBack 50000, Step 2, Fire (Some 1000)] (PlungerMover_new (sampleData False))
           = (PlungerMover_new (sampleData False))
               \<lparr>mv_pos := 10, mv_velocity := - 100000, mv_mode := Fired\<rparr>"
    by (simp add: PlungerMover_new_def sampleData_def clampPos_def PlungerMover_pullBack_def
        PlungerMover_step_def integrate_def approach_def clampToTravel_def settle_def
        PlungerMover_fire_def)
  have i: "mv_pos (integrate 1 (runCommands [PullBack 50000, Step 2, Fire (Some 1000)]
        (PlungerMover_new (sampleData False)))) = - 10"
    unfolding r by (simp add: integrate_def PlungerMover_new_def sampleData_def Let_def)
  have s: "mv_pos (PlungerMover_step 1 (runCommands [PullBack 50000, Step 2, Fire (Some 1000)]
        (PlungerMover_new (sampleData False)))) \<le> 0"
    unfolding r
    by (simp add: PlungerMover_step_def settle_pos clampToTravel_def integrate_def
        PlungerMover_new_def sampleData_def Let_def)
  from step_within_travel [OF b, of 1 "[PullBack 50000, Step 2, Fire (Some 1000)]"] t s
  have "mv_pos (PlungerMover_step 1 (runCommands [PullBack 50000, Step 2, Fire (Some 1000)]
        (PlungerMover_new (sampleData False)))) = 0"
    by simp
  with b t u i show ?thesis by blast
qed

subsection \<open>What fire releases\<close>

















end
